theory Spec2Isabelle
  imports Main "HOL-Library.Word"
begin

section \<open>Repository-tag parsing (misc.go, ParseRepositoryTag)\<close>

text \<open>
  Go strings are byte sequences, modelled as \<open>string\<close> (a list of 8-bit characters).
  \<open>strings.LastIndex s substr\<close> is the index of the last instance of \<open>substr\<close> in
  \<open>s\<close>, or \<open>-1\<close>; \<open>strings.Index\<close> is the index of the first one, or \<open>-1\<close>;
  \<open>strings.Contains s substr\<close> is \<open>Index s substr >= 0\<close>.
\<close>

fun LastIndex :: "string \<Rightarrow> string \<Rightarrow> int" where
  "LastIndex [] substr = (if substr = [] then 0 else - 1)"
| "LastIndex (c # cs) substr =
     (let r = LastIndex cs substr
      in if 0 \<le> r then r + 1
         else if take (length substr) (c # cs) = substr then 0
         else - 1)"

fun Index :: "string \<Rightarrow> string \<Rightarrow> int" where
  "Index [] substr = (if substr = [] then 0 else - 1)"
| "Index (c # cs) substr =
     (if take (length substr) (c # cs) = substr then 0
      else (let r = Index cs substr in if 0 \<le> r then r + 1 else - 1))"

definition Contains :: "string \<Rightarrow> string \<Rightarrow> bool" where
  "Contains s substr = (0 \<le> Index s substr)"

text \<open>
  The slices \<open>repoTag[n+1:]\<close> and \<open>repoTag[:n]\<close> are \<open>drop\<close> and \<open>take\<close>; they are
  reached only with \<open>0 \<le> n < len(repoTag)\<close>, where Go does not panic.
\<close>

definition ParseRepositoryTag :: "string \<Rightarrow> string \<times> string" where
  "ParseRepositoryTag repoTag =
     (let n = LastIndex repoTag '':''
      in if n < 0 then (repoTag, '''')
         else (let tag = drop (nat (n + 1)) repoTag
               in if \<not> Contains tag ''/'' then (take (nat n) repoTag, tag)
                  else (repoTag, '''')))"

section \<open>Exec (misc.go): data model\<close>

text \<open>
  A Go \<open>error\<close> is an interface value; \<open>nil\<close> is \<open>None\<close>. The error values that
  Exec builds itself are \<open>&NoSuchContainer{ID: ...}\<close> and the value of \<open>fmt.Errorf\<close>;
  \<open>Foreign\<close> stands for an error value handed back by a collaborator (\<open>c.do\<close>,
  \<open>json.Unmarshal\<close>, \<open>c.hijack2\<close>, \<open>c.monitorTtySize\<close>).
\<close>

datatype error =
    NoSuchContainer string
  | Errorf string
  | Foreign nat

type_synonym err = "error option"

text \<open>
  The caller's streams are interface values (\<open>io.Reader\<close>, \<open>io.Writer\<close>). Exec only
  inspects their dynamic type: \<open>OsFile\<close> is a value of dynamic type \<open>*os.File\<close>, with
  its descriptor (\<open>uintptr\<close>, 64 bits here) and with the fact whether that descriptor
  refers to a terminal device, which Exec never reads; \<open>NoStream\<close> is the nil interface.
\<close>

datatype stream =
    NoStream
  | OsFile "64 word" bool
  | OtherStream nat

fun is_terminal_device :: "stream \<Rightarrow> bool" where
  "is_terminal_device (OsFile fd tty) = tty"
| "is_terminal_device s = False"

record ExecOptions =
  User :: string
  Privileged :: bool
  AttachStdin :: bool
  AttachStdout :: bool
  AttachStderr :: bool
  Tty :: bool
  Command :: "string list"
  Container :: string
  OutputStream :: stream
  ErrorStream :: stream
  InputStream :: stream

text \<open>An \<open>io.Closer\<close> that is not nil is identified by a number.\<close>

type_synonym closer = nat

text \<open>
  What Exec does to its collaborators and channels is recorded as a trace of events:
  the calls \<open>c.do\<close>, \<open>c.hijack2\<close>, \<open>c.monitorTtySize\<close>, \<open>fmt.Println\<close>,
  \<open>fmt.Printf\<close> and \<open>closer.Close\<close> with their arguments, and every completed
  receive from \<open>errCh\<close> (with the value) and from \<open>hijacked\<close> (with the value and
  the \<open>ok\<close> flag). A session has one \<open>hijacked\<close> channel, so the channel argument
  of \<open>c.hijack2\<close> is not recorded; the status code that \<open>c.do\<close> returns is
  discarded by Exec and not modelled.
\<close>

datatype event =
    Do string string ExecOptions
  | Hijack2 string string bool stream stream stream ExecOptions
  | MonitorTtySize string bool bool "64 word"
  | Println string
  | Printf string error
  | Close closer
  | RecvErrCh err
  | RecvHijacked "closer option" bool

text \<open>
  Modelled from the spec: what the relay does is decided by \<open>c.hijack2\<close> and
  \<open>promise.Go\<close>, which are not in misc.go. The relay either fails to upgrade the
  connection, with an error, or it acquires a connection; after a successful upgrade the
  bidirectional copy ends with \<open>copy_result\<close> (nil or the first I/O error).
\<close>

datatype upgrade_result = UpgradeFails error | UpgradeOk closer

text \<open>
  The collaborators of one call of Exec. \<open>do_request\<close> is \<open>c.do\<close> (an error, or the
  response body); \<open>unmarshal_Id\<close> is \<open>json.Unmarshal(body, &id)\<close> followed by reading
  \<open>id.Id\<close> (an error, or the decoded field, which is empty when the document has no such
  field); \<open>monitorTtySize\<close> is \<open>c.monitorTtySize\<close>; \<open>upgrade\<close> and
  \<open>copy_result\<close> are what the relay meets.
\<close>

record world =
  do_request :: "string \<Rightarrow> string \<Rightarrow> ExecOptions \<Rightarrow> error + string"
  unmarshal_Id :: "string \<Rightarrow> error + string"
  monitorTtySize :: "string \<Rightarrow> bool \<Rightarrow> bool \<Rightarrow> 64 word \<Rightarrow> err"
  upgrade :: upgrade_result
  copy_result :: err

section \<open>Exec: validation and creation of the exec instance (lines 67-85)\<close>

definition missing_operation_id :: error where
  "missing_operation_id =
     Errorf (''Couldn'' @ [CHR 0x27] @ ''t get an operation id for the exec command'')"

text \<open>
  The result is the trace so far and either the error that Exec returns at once or the
  identifier \<open>id.Id\<close> of the created exec instance.
\<close>

definition Exec_create :: "world \<Rightarrow> ExecOptions \<Rightarrow> event list \<times> (error + string)" where
  "Exec_create w opts =
     (if Container opts = '''' then ([], Inl (NoSuchContainer (Container opts)))
      else
        (let name = Container opts;
             path = ''/containers/'' @ name @ ''/exec''
         in case do_request w ''POST'' path opts of
              Inl err \<Rightarrow> ([Do ''POST'' path opts], Inl err)
            | Inr body \<Rightarrow>
                (case unmarshal_Id w body of
                   Inl err \<Rightarrow> ([Do ''POST'' path opts], Inl err)
                 | Inr eid \<Rightarrow>
                     if eid = '''' then ([Do ''POST'' path opts], Inl missing_operation_id)
                     else ([Do ''POST'' path opts], Inr eid))))"

section \<open>Exec: the session (lines 86-139)\<close>

definition doPath :: "string \<Rightarrow> string" where
  "doPath eid = ''/exec/'' @ eid @ ''/start''"

text \<open>The function given to \<open>promise.Go\<close> (lines 98-104): the call of \<open>c.hijack2\<close>.\<close>

definition hijack2_call :: "ExecOptions \<Rightarrow> string \<Rightarrow> event" where
  "hijack2_call opts path =
     (let stderr = (if Tty opts then OutputStream opts else ErrorStream opts)
      in Hijack2 ''POST'' path (Tty opts) (InputStream opts) (OutputStream opts) stderr opts)"

text \<open>The terminal checks and the size monitor (lines 117-134).\<close>

definition isTerminalIn :: "ExecOptions \<Rightarrow> bool" where
  "isTerminalIn opts = (case InputStream opts of OsFile fd tty \<Rightarrow> True | _ \<Rightarrow> False)"

definition isTerminalOut :: "ExecOptions \<Rightarrow> bool" where
  "isTerminalOut opts = (case OutputStream opts of OsFile fd tty \<Rightarrow> True | _ \<Rightarrow> False)"

definition outFd :: "ExecOptions \<Rightarrow> 64 word" where
  "outFd opts = (case OutputStream opts of OsFile fd tty \<Rightarrow> fd | _ \<Rightarrow> 0)"

definition tty_warning :: string where
  "tty_warning = ''Error monitoring TTY size: %s'' @ [CHR 0x0A]"

definition tty_monitor :: "world \<Rightarrow> ExecOptions \<Rightarrow> string \<Rightarrow> event list" where
  "tty_monitor w opts eid =
     (if Tty opts \<and> isTerminalIn opts then
        MonitorTtySize eid True (isTerminalOut opts) (outFd opts) #
        (case monitorTtySize w eid True (isTerminalOut opts) (outFd opts) of
           Some err \<Rightarrow> [Printf tty_warning err]
         | None \<Rightarrow> [])
      else [])"

text \<open>
  The coordinator is Exec itself from line 106 on. Its control points:
  \<^item> \<open>Select\<close>: blocked in the \<open>select\<close> of line 106;
  \<^item> \<open>Monitor d\<close>: past the select, before the terminal checks; \<open>d\<close> is the closer whose
    \<open>Close\<close> was deferred at line 109 (\<open>None\<close> when nothing was deferred);
  \<^item> \<open>FinalRecv d\<close>: blocked in the receive of line 136;
  \<^item> \<open>Return d r\<close>: a \<open>return\<close> with value \<open>r\<close> was executed, the deferred calls are
    still to run (last deferred first: \<open>closer.Close()\<close>, then the function of line 91);
  \<^item> \<open>DeferredRecv r\<close>: blocked in the receive from \<open>hijacked\<close> of line 92;
  \<^item> \<open>Returned r\<close>: Exec has returned \<open>r\<close>.
\<close>

datatype coord =
    Select
  | Monitor "closer option"
  | FinalRecv "closer option"
  | Return "closer option" err
  | DeferredRecv err
  | Returned err

text \<open>
  Modelled from the spec: the relay is the goroutine started by \<open>promise.Go\<close>, running
  \<open>c.hijack2\<close>; neither is in misc.go. It upgrades the connection; on success it sends
  the connection on \<open>hijacked\<close> (\<open>Ready\<close>), copies (\<open>Copying\<close>), and ends with the
  result of the copy; on failure it ends with the failure. When \<open>c.hijack2\<close> ends
  (\<open>Finishing\<close>) it leaves \<open>hijacked\<close> closed, which is what the deferred function of
  line 91 waits for, and the value it returns is then written on \<open>errCh\<close>
  (\<open>Resolve\<close>), once, by the goroutine, which is the only writer of that channel.
\<close>

datatype relay =
    Spawned
  | Upgrading
  | Ready closer
  | Copying
  | Finishing err
  | Resolve err
  | Exited

text \<open>
  A configuration of the session: both control points, whether \<open>hijacked\<close> (unbuffered,
  line 87) has been closed, the buffer of \<open>errCh\<close> (capacity one), and the trace.
\<close>

record cfg =
  coord :: coord
  relay :: relay
  hijacked_closed :: bool
  errCh :: "err list"
  trace :: "event list"

definition session_start :: cfg where
  "session_start =
     \<lparr>coord = Select, relay = Spawned, hijacked_closed = False, errCh = [], trace = []\<rparr>"

text \<open>
  Modelled from the spec: the steps the relay takes on its own, inside \<open>c.hijack2\<close> and
  \<open>promise.Go\<close>, which are not in misc.go. The upgrade fails or succeeds; the copy ends;
  \<open>c.hijack2\<close> ends and leaves \<open>hijacked\<close> closed; the goroutine writes the value
  that \<open>c.hijack2\<close> returned on \<open>errCh\<close>, which has room for it.
\<close>

inductive relay_step :: "world \<Rightarrow> cfg \<Rightarrow> cfg \<Rightarrow> bool"
  for w :: world
where
  upgrade_fails:
    "relay s = Upgrading \<Longrightarrow> upgrade w = UpgradeFails e \<Longrightarrow>
     relay_step w s (s\<lparr>relay := Finishing (Some e)\<rparr>)"
| upgrade_ok:
    "relay s = Upgrading \<Longrightarrow> upgrade w = UpgradeOk c \<Longrightarrow>
     relay_step w s (s\<lparr>relay := Ready c\<rparr>)"
| copy_done:
    "relay s = Copying \<Longrightarrow>
     relay_step w s (s\<lparr>relay := Finishing (copy_result w)\<rparr>)"
| hijack2_returns:
    "relay s = Finishing v \<Longrightarrow>
     relay_step w s (s\<lparr>relay := Resolve v, hijacked_closed := True\<rparr>)"
| promise_resolves:
    "relay s = Resolve v \<Longrightarrow> length (errCh s) < 1 \<Longrightarrow>
     relay_step w s (s\<lparr>relay := Exited, errCh := errCh s @ [v]\<rparr>)"

code_pred relay_step .

text \<open>
  The steps the coordinator takes on its own: Exec from line 106 on. A receive from a
  closed channel yields nil and \<open>ok = false\<close>; a receive from \<open>errCh\<close> takes the
  value out of its buffer.
\<close>

inductive coord_step :: "world \<Rightarrow> ExecOptions \<Rightarrow> string \<Rightarrow> cfg \<Rightarrow> cfg \<Rightarrow> bool"
  for w :: world and opts :: ExecOptions and eid :: string
where
  select_closed:
    \<comment> \<open>lines 107-110: the select receives from the closed \<open>hijacked\<close>; the closer is nil\<close>
    "coord s = Select \<Longrightarrow> hijacked_closed s \<Longrightarrow>
     coord_step w opts eid s
       (s\<lparr>coord := Monitor None, trace := trace s @ [RecvHijacked None False]\<rparr>)"
| select_errCh:
    \<comment> \<open>lines 111-114: the select receives from \<open>errCh\<close>; a non-nil error is returned\<close>
    "coord s = Select \<Longrightarrow> errCh s = v # rest \<Longrightarrow>
     coord_step w opts eid s
       (s\<lparr>coord := (if v \<noteq> None then Return None v else Monitor None),
          errCh := rest, trace := trace s @ [RecvErrCh v]\<rparr>)"
| monitor:
    \<comment> \<open>lines 117-134\<close>
    "coord s = Monitor d \<Longrightarrow>
     coord_step w opts eid s
       (s\<lparr>coord := FinalRecv d, trace := trace s @ tty_monitor w opts eid\<rparr>)"
| final_recv:
    \<comment> \<open>lines 136-139\<close>
    "coord s = FinalRecv d \<Longrightarrow> errCh s = v # rest \<Longrightarrow>
     coord_step w opts eid s
       (s\<lparr>coord := Return d (if v \<noteq> None then v else None),
          errCh := rest, trace := trace s @ [RecvErrCh v]\<rparr>)"
| deferred_close:
    \<comment> \<open>line 109, run at the return\<close>
    "coord s = Return (Some c) r \<Longrightarrow>
     coord_step w opts eid s (s\<lparr>coord := DeferredRecv r, trace := trace s @ [Close c]\<rparr>)"
| no_deferred_close:
    "coord s = Return None r \<Longrightarrow>
     coord_step w opts eid s (s\<lparr>coord := DeferredRecv r\<rparr>)"
| deferred_closed:
    \<comment> \<open>lines 92-95: the deferred receive finds \<open>hijacked\<close> closed, \<open>ok\<close> is false\<close>
    "coord s = DeferredRecv r \<Longrightarrow> hijacked_closed s \<Longrightarrow>
     coord_step w opts eid s
       (s\<lparr>coord := Returned r, trace := trace s @ [RecvHijacked None False]\<rparr>)"

code_pred coord_step .

text \<open>
  One step of the session; every interleaving of the relay and the coordinator is a
  sequence of such steps. The goroutine starts by calling \<open>c.hijack2\<close> (lines 98-104).
  The relay and the coordinator step on their own, or together: \<open>hijacked\<close> is
  unbuffered (line 87), so the relay's send of the connection happens together with a
  receive of the coordinator, in the select (lines 107-110, where the closer is not nil
  and \<open>Close\<close> is deferred) or in the deferred function (lines 92-94, where \<open>ok\<close> is
  true and the message is printed).
\<close>

inductive step :: "world \<Rightarrow> ExecOptions \<Rightarrow> string \<Rightarrow> cfg \<Rightarrow> cfg \<Rightarrow> bool"
  for w :: world and opts :: ExecOptions and eid :: string
where
  relay_run:
    "relay s = Spawned \<Longrightarrow>
     step w opts eid s
       (s\<lparr>relay := Upgrading, trace := trace s @ [hijack2_call opts (doPath eid)]\<rparr>)"
| relay_alone:
    "relay_step w s s' \<Longrightarrow> step w opts eid s s'"
| coord_alone:
    "coord_step w opts eid s s' \<Longrightarrow> step w opts eid s s'"
| select_hijacked:
    "relay s = Ready c \<Longrightarrow> coord s = Select \<Longrightarrow>
     step w opts eid s
       (s\<lparr>relay := Copying, coord := Monitor (Some c),
          trace := trace s @ [RecvHijacked (Some c) True]\<rparr>)"
| deferred_hijacked:
    "relay s = Ready c \<Longrightarrow> coord s = DeferredRecv r \<Longrightarrow>
     step w opts eid s
       (s\<lparr>relay := Copying, coord := Returned r,
          trace := trace s @ [RecvHijacked (Some c) True,
                     Println ''Hijack did not finish (chan still open)'']\<rparr>)"

code_pred step .

inductive reachable :: "world \<Rightarrow> ExecOptions \<Rightarrow> string \<Rightarrow> cfg \<Rightarrow> bool"
  for w :: world and opts :: ExecOptions and eid :: string
where
  reachable_start: "reachable w opts eid session_start"
| reachable_step:
    "reachable w opts eid s \<Longrightarrow> step w opts eid s s' \<Longrightarrow> reachable w opts eid s'"

code_pred reachable .

text \<open>
  \<open>Exec_returns w opts t r\<close>: some run of \<open>Exec(opts)\<close> returns \<open>r\<close>, with trace
  \<open>t\<close> at the return.
\<close>

inductive Exec_returns :: "world \<Rightarrow> ExecOptions \<Rightarrow> event list \<Rightarrow> err \<Rightarrow> bool"
  for w :: world and opts :: ExecOptions
where
  returns_early:
    "Exec_create w opts = (t, Inl e) \<Longrightarrow> Exec_returns w opts t (Some e)"
| returns_session:
    "Exec_create w opts = (t, Inr eid) \<Longrightarrow> reachable w opts eid s \<Longrightarrow>
     coord s = Returned r \<Longrightarrow> Exec_returns w opts (t @ trace s) r"

code_pred Exec_returns .

section \<open>Observations of a trace\<close>

fun errCh_receives :: "event list \<Rightarrow> err list" where
  "errCh_receives [] = []"
| "errCh_receives (RecvErrCh v # tr) = v # errCh_receives tr"
| "errCh_receives (ev # tr) = errCh_receives tr"

fun closes :: "event list \<Rightarrow> closer list" where
  "closes [] = []"
| "closes (Close c # tr) = c # closes tr"
| "closes (ev # tr) = closes tr"

fun is_request :: "event \<Rightarrow> bool" where
  "is_request (Do method path data) = True"
| "is_request (Hijack2 method path raw i out e data) = True"
| "is_request ev = False"

definition requests :: "event list \<Rightarrow> event list" where
  "requests tr = filter is_request tr"

fun is_monitor_call :: "event \<Rightarrow> bool" where
  "is_monitor_call (MonitorTtySize eid isIn isOut fd) = True"
| "is_monitor_call ev = False"

definition monitor_calls :: "event list \<Rightarrow> event list" where
  "monitor_calls tr = filter is_monitor_call tr"

text \<open>
  Whether the select of line 106 received from \<open>hijacked\<close>: its receive is the first
  event after the call of \<open>c.hijack2\<close>.
\<close>

fun select_took_hijacked :: "event list \<Rightarrow> bool" where
  "select_took_hijacked (h # RecvHijacked a ok # tr) = True"
| "select_took_hijacked tr = False"

text \<open>The value the relay ends with, and the connection it hands over.\<close>

definition relay_result :: "world \<Rightarrow> err" where
  "relay_result w =
     (case upgrade w of UpgradeFails e \<Rightarrow> Some e | UpgradeOk c \<Rightarrow> copy_result w)"

definition acquired :: "world \<Rightarrow> closer option" where
  "acquired w = (case upgrade w of UpgradeFails e \<Rightarrow> None | UpgradeOk c \<Rightarrow> Some c)"

text \<open>Every step lowers this measure, so every run of the session is finite.\<close>

fun coord_rank :: "coord \<Rightarrow> nat" where
  "coord_rank Select = 5"
| "coord_rank (Monitor d) = 4"
| "coord_rank (FinalRecv d) = 3"
| "coord_rank (Return d r) = 2"
| "coord_rank (DeferredRecv r) = 1"
| "coord_rank (Returned r) = 0"

fun relay_rank :: "relay \<Rightarrow> nat" where
  "relay_rank Spawned = 6"
| "relay_rank Upgrading = 5"
| "relay_rank (Ready c) = 4"
| "relay_rank Copying = 3"
| "relay_rank (Finishing v) = 2"
| "relay_rank (Resolve v) = 1"
| "relay_rank Exited = 0"

definition rank :: "cfg \<Rightarrow> nat" where
  "rank s = coord_rank (coord s) + relay_rank (relay s)"

section \<open>The invariant of the session\<close>

definition after_select :: "world \<Rightarrow> ExecOptions \<Rightarrow> string \<Rightarrow> event list" where
  "after_select w opts eid =
     [hijack2_call opts (doPath eid), RecvHijacked (acquired w) (acquired w \<noteq> None)]"

definition deferred_closes :: "world \<Rightarrow> event list" where
  "deferred_closes w = (case acquired w of Some c \<Rightarrow> [Close c] | None \<Rightarrow> [])"

definition relay_streaming :: "world \<Rightarrow> cfg \<Rightarrow> bool" where
  "relay_streaming w s \<longleftrightarrow>
     (acquired w \<noteq> None \<and> relay s = Copying \<and> \<not> hijacked_closed s \<and> errCh s = []) \<or>
     (acquired w \<noteq> None \<and> relay s = Finishing (relay_result w) \<and>
        \<not> hijacked_closed s \<and> errCh s = []) \<or>
     (relay s = Resolve (relay_result w) \<and> hijacked_closed s \<and> errCh s = []) \<or>
     (relay s = Exited \<and> hijacked_closed s \<and> errCh s = [relay_result w])"

definition relay_before_select :: "world \<Rightarrow> cfg \<Rightarrow> bool" where
  "relay_before_select w s \<longleftrightarrow>
     (relay s = Upgrading \<and> \<not> hijacked_closed s \<and> errCh s = []) \<or>
     (\<exists>c. upgrade w = UpgradeOk c \<and> relay s = Ready c \<and> \<not> hijacked_closed s \<and> errCh s = []) \<or>
     (acquired w = None \<and> relay s = Finishing (relay_result w) \<and>
        \<not> hijacked_closed s \<and> errCh s = []) \<or>
     (acquired w = None \<and> relay s = Resolve (relay_result w) \<and>
        hijacked_closed s \<and> errCh s = []) \<or>
     (acquired w = None \<and> relay s = Exited \<and> hijacked_closed s \<and> errCh s = [relay_result w])"

definition relay_done :: "cfg \<Rightarrow> bool" where
  "relay_done s \<longleftrightarrow> relay s = Exited \<and> hijacked_closed s \<and> errCh s = []"

definition session_inv :: "world \<Rightarrow> ExecOptions \<Rightarrow> string \<Rightarrow> cfg \<Rightarrow> bool" where
  "session_inv w opts eid s =
     (case coord s of
        Select \<Rightarrow>
          (relay s = Spawned \<and> \<not> hijacked_closed s \<and> errCh s = [] \<and> trace s = []) \<or>
          (relay_before_select w s \<and> trace s = [hijack2_call opts (doPath eid)])
      | Monitor d \<Rightarrow>
          d = acquired w \<and> relay_streaming w s \<and> trace s = after_select w opts eid
      | FinalRecv d \<Rightarrow>
          d = acquired w \<and> relay_streaming w s \<and>
          trace s = after_select w opts eid @ tty_monitor w opts eid
      | Return d r \<Rightarrow>
          r = relay_result w \<and> relay_done s \<and>
          ((d = acquired w \<and>
            trace s = after_select w opts eid @ tty_monitor w opts eid
                        @ [RecvErrCh (relay_result w)]) \<or>
           (d = None \<and> acquired w = None \<and>
            trace s = [hijack2_call opts (doPath eid), RecvErrCh (relay_result w)]))
      | DeferredRecv r \<Rightarrow>
          r = relay_result w \<and> relay_done s \<and>
          (trace s = after_select w opts eid @ tty_monitor w opts eid
                       @ [RecvErrCh (relay_result w)] @ deferred_closes w \<or>
           (acquired w = None \<and>
            trace s = [hijack2_call opts (doPath eid), RecvErrCh (relay_result w)]))
      | Returned r \<Rightarrow>
          r = relay_result w \<and> relay_done s \<and>
          (trace s = after_select w opts eid @ tty_monitor w opts eid
                       @ [RecvErrCh (relay_result w)] @ deferred_closes w
                       @ [RecvHijacked None False] \<or>
           (acquired w = None \<and>
            trace s = [hijack2_call opts (doPath eid), RecvErrCh (relay_result w),
                       RecvHijacked None False])))"

section \<open>Two example sessions\<close>

text \<open>
  A session with a pseudo-terminal whose input is an \<open>*os.File\<close> that is not a terminal
  device (a regular file on descriptor 3); the upgrade succeeds, the size monitor fails,
  the copy ends without error.
\<close>

definition example_opts :: ExecOptions where
  "example_opts =
     \<lparr>User = ''root'', Privileged = False, AttachStdin = True, AttachStdout = True,
      AttachStderr = True, Tty = True, Command = [''sh''], Container = ''web'',
      OutputStream = OsFile 1 True, ErrorStream = OsFile 2 True,
      InputStream = OsFile 3 False\<rparr>"

text \<open>The body of the creation response of the examples: \<open>{"Id":"e1"}\<close>.\<close>

definition example_body :: string where
  "example_body = ''{'' @ [CHR 0x22] @ ''Id'' @ [CHR 0x22] @ '':'' @ [CHR 0x22] @ ''e1''
     @ [CHR 0x22] @ ''}''"

definition example_world :: world where
  "example_world =
     \<lparr>do_request = (\<lambda>method path data. Inr example_body),
      unmarshal_Id = (\<lambda>body. Inr ''e1''),
      monitorTtySize = (\<lambda>eid isIn isOut fd. Some (Foreign 7)),
      upgrade = UpgradeOk 5,
      copy_result = None\<rparr>"

definition example_create :: event where
  "example_create = Do ''POST'' ''/containers/web/exec'' example_opts"

definition example_start :: event where
  "example_start =
     Hijack2 ''POST'' ''/exec/e1/start'' True (OsFile 3 False) (OsFile 1 True) (OsFile 1 True)
       example_opts"

definition example_trace :: "event list" where
  "example_trace =
     [example_start,
      RecvHijacked (Some 5) True,
      MonitorTtySize ''e1'' True True 1,
      Printf tty_warning (Foreign 7),
      RecvErrCh None,
      Close 5,
      RecvHijacked None False]"

definition example_final :: cfg where
  "example_final =
     \<lparr>coord = Returned None, relay = Exited, hijacked_closed = True, errCh = [],
      trace = example_trace\<rparr>"

text \<open>
  The same session when the upgrade fails and the select receives the failure from
  \<open>errCh\<close> before it looks at \<open>hijacked\<close>.
\<close>

definition refused_world :: world where
  "refused_world = example_world\<lparr>upgrade := UpgradeFails (Foreign 9)\<rparr>"

definition refused_trace :: "event list" where
  "refused_trace = [example_start, RecvErrCh (Some (Foreign 9)), RecvHijacked None False]"

definition refused_final :: cfg where
  "refused_final =
     \<lparr>coord = Returned (Some (Foreign 9)), relay = Exited, hijacked_closed = True, errCh = [],
      trace = refused_trace\<rparr>"

text \<open>
  The example with a creation response that \<open>c.do\<close> returns successfully but whose body
  is empty: it holds no identifier, and \<open>json.Unmarshal\<close> returns an error.
\<close>

definition undecodable_world :: world where
  "undecodable_world =
     example_world\<lparr>do_request := \<lambda>method path data. Inr '''',
                   unmarshal_Id := \<lambda>body. Inl (Foreign 8)\<rparr>"

section \<open>ParseRepositoryTag: proofs\<close>

subsection \<open>Facts about the string primitives\<close>

lemma LastIndex_ge_minus_one: "- 1 \<le> LastIndex s substr"
  by (induction s) (auto simp: Let_def)

lemma LastIndex_byte_absent:
  "c \<notin> set s \<Longrightarrow> LastIndex s [c] = - 1"
  by (induction s) (auto simp: Let_def)

lemma LastIndex_byte_present:
  "c \<in> set s \<Longrightarrow> 0 \<le> LastIndex s [c]"
  by (induction s) (auto simp: Let_def)

lemma LastIndex_byte_split:
  "c \<notin> set t \<Longrightarrow> LastIndex (r @ c # t) [c] = int (length r)"
  by (induction r) (auto simp: Let_def LastIndex_byte_absent)

lemma Index_byte_iff: "0 \<le> Index s [c] \<longleftrightarrow> c \<in> set s"
  by (induction s) (auto simp: Let_def)

lemma Contains_byte_iff: "Contains s [c] \<longleftrightarrow> c \<in> set s"
  by (simp add: Contains_def Index_byte_iff)

lemma last_occurrence_split:
  "c \<in> set s \<Longrightarrow> \<exists>r t. s = r @ c # t \<and> c \<notin> set t"
  by (metis split_list_last)

lemma ParseRepositoryTag_no_colon:
  "CHR '':'' \<notin> set s \<Longrightarrow> ParseRepositoryTag s = (s, '''')"
  by (simp add: ParseRepositoryTag_def LastIndex_byte_absent)

lemma ParseRepositoryTag_split:
  "CHR '':'' \<notin> set t \<Longrightarrow>
   ParseRepositoryTag (r @ CHR '':'' # t) =
     (if CHR ''/'' \<in> set t then (r @ CHR '':'' # t, '''') else (r, t))"
proof -
  assume t: "CHR '':'' \<notin> set t"
  have n: "nat (int (length r) + 1) = Suc (length r)"
    by simp
  show ?thesis
    by (simp add: ParseRepositoryTag_def LastIndex_byte_split [OF t] Contains_byte_iff n
        del: of_nat_Suc)
qed

subsection \<open>Claims about ParseRepositoryTag\<close>

text \<open>
  C8. ParseRepositoryTag splits on the last colon and takes the suffix after that colon
  as the tag only if the suffix contains no slash; otherwise, and when there is no colon,
  the whole string is the repository and the tag is empty. The four examples of the
  specification evaluate as stated.
\<close>

theorem ParseRepositoryTag_last_colon:
  "(\<forall>s. CHR '':'' \<notin> set s \<longrightarrow> ParseRepositoryTag s = (s, '''')) \<and>
   (\<forall>r t. CHR '':'' \<notin> set t \<and> CHR ''/'' \<notin> set t \<longrightarrow>
      ParseRepositoryTag (r @ '':'' @ t) = (r, t)) \<and>
   (\<forall>r t. CHR '':'' \<notin> set t \<and> CHR ''/'' \<in> set t \<longrightarrow>
      ParseRepositoryTag (r @ '':'' @ t) = (r @ '':'' @ t, '''')) \<and>
   ParseRepositoryTag ''localhost.localdomain:5000/samalba/hipache:latest'' =
     (''localhost.localdomain:5000/samalba/hipache'', ''latest'') \<and>
   ParseRepositoryTag ''localhost.localdomain:5000/samalba/hipache'' =
     (''localhost.localdomain:5000/samalba/hipache'', '''') \<and>
   ParseRepositoryTag ''alpine'' = (''alpine'', '''') \<and>
   ParseRepositoryTag ''a:b/c'' = (''a:b/c'', '''')"
proof (intro conjI allI impI)
  fix s :: string
  assume "CHR '':'' \<notin> set s"
  then show "ParseRepositoryTag s = (s, '''')"
    by (rule ParseRepositoryTag_no_colon)
next
  fix r t :: string
  assume "CHR '':'' \<notin> set t \<and> CHR ''/'' \<notin> set t"
  then show "ParseRepositoryTag (r @ '':'' @ t) = (r, t)"
    using ParseRepositoryTag_split [of t r] by simp
next
  fix r t :: string
  assume "CHR '':'' \<notin> set t \<and> CHR ''/'' \<in> set t"
  then show "ParseRepositoryTag (r @ '':'' @ t) = (r @ '':'' @ t, '''')"
    using ParseRepositoryTag_split [of t r] by simp
next
  show "ParseRepositoryTag ''localhost.localdomain:5000/samalba/hipache:latest'' =
     (''localhost.localdomain:5000/samalba/hipache'', ''latest'')"
    by (simp add: ParseRepositoryTag_def Contains_def Let_def)
next
  show "ParseRepositoryTag ''localhost.localdomain:5000/samalba/hipache'' =
     (''localhost.localdomain:5000/samalba/hipache'', '''')"
    by (simp add: ParseRepositoryTag_def Contains_def Let_def)
next
  show "ParseRepositoryTag ''alpine'' = (''alpine'', '''')"
    by (simp add: ParseRepositoryTag_def Contains_def Let_def)
next
  show "ParseRepositoryTag ''a:b/c'' = (''a:b/c'', '''')"
    by (simp add: ParseRepositoryTag_def Contains_def Let_def)
qed

theorem ParseRepositoryTag_last_colon_witness:
  "ParseRepositoryTag ''alpine'' = (''alpine'', '''') \<and>
   ParseRepositoryTag (''repo:5000/name'' @ '':'' @ ''v1'') = (''repo:5000/name'', ''v1'') \<and>
   ParseRepositoryTag (''a'' @ '':'' @ ''b/c'') = (''a'' @ '':'' @ ''b/c'', '''')"
proof -
  have h1: "CHR '':'' \<notin> set ''alpine''" by simp
  have h2: "CHR '':'' \<notin> set ''v1'' \<and> CHR ''/'' \<notin> set ''v1''" by simp
  have h3: "CHR '':'' \<notin> set ''b/c'' \<and> CHR ''/'' \<in> set ''b/c''" by simp
  from ParseRepositoryTag_last_colon h1 h2 h3 show ?thesis by blast
qed

text \<open>
  C9 as stated fails: for an input that ends in a colon the returned tag is empty and
  the repository is the input without its final colon, not the input.
\<close>

theorem ParseRepositoryTag_roundtrip_counterexample:
  "ParseRepositoryTag ''alpine:'' = (''alpine'', '''') \<and> ''alpine'' \<noteq> ''alpine:''"
  by (simp add: ParseRepositoryTag_def Contains_def Let_def)

text \<open>
  C9, amended. For every input \<open>s\<close> with result \<open>(repository, tag)\<close>: if the tag is
  non-empty then \<open>repository ++ ":" ++ tag = s\<close>; if the tag is empty then
  \<open>repository = s\<close> or \<open>repository ++ ":" = s\<close>; in both cases the tag contains no
  slash.
\<close>

theorem ParseRepositoryTag_roundtrip:
  "ParseRepositoryTag s = (repository, tag) \<Longrightarrow>
     (tag \<noteq> '''' \<longrightarrow> repository @ '':'' @ tag = s) \<and>
     (tag = '''' \<longrightarrow> repository = s \<or> repository @ '':'' = s) \<and>
     CHR ''/'' \<notin> set tag"
proof (cases "CHR '':'' \<in> set s")
  case False
  assume "ParseRepositoryTag s = (repository, tag)"
  with False show ?thesis
    by (simp add: ParseRepositoryTag_no_colon)
next
  case True
  assume res: "ParseRepositoryTag s = (repository, tag)"
  from True obtain r t where s: "s = r @ CHR '':'' # t" and t: "CHR '':'' \<notin> set t"
    using last_occurrence_split by metis
  from res s t show ?thesis
    by (auto simp: ParseRepositoryTag_split split: if_splits)
qed

theorem ParseRepositoryTag_roundtrip_witness:
  "ParseRepositoryTag ''host:5000/ns/name:latest'' = (''host:5000/ns/name'', ''latest'') \<and>
   ''host:5000/ns/name'' @ '':'' @ ''latest'' = ''host:5000/ns/name:latest'' \<and>
   CHR ''/'' \<notin> set ''latest''"
proof -
  have h: "ParseRepositoryTag ''host:5000/ns/name:latest'' = (''host:5000/ns/name'', ''latest'')"
    by (simp add: ParseRepositoryTag_def Contains_def Let_def)
  from ParseRepositoryTag_roundtrip [OF h] h show ?thesis by simp
qed

section \<open>Exec: proofs\<close>

subsection \<open>Observations of the pieces of a trace\<close>

lemma errCh_receives_append [simp]:
  "errCh_receives (xs @ ys) = errCh_receives xs @ errCh_receives ys"
  by (induction xs rule: errCh_receives.induct) auto

lemma closes_append [simp]: "closes (xs @ ys) = closes xs @ closes ys"
  by (induction xs rule: closes.induct) auto


lemma errCh_receives_tty_monitor [simp]: "errCh_receives (tty_monitor w opts eid) = []"
  by (simp add: tty_monitor_def split: option.splits)

lemma closes_tty_monitor [simp]: "closes (tty_monitor w opts eid) = []"
  by (simp add: tty_monitor_def split: option.splits)

lemma requests_tty_monitor [simp]: "filter is_request (tty_monitor w opts eid) = []"
  by (simp add: tty_monitor_def split: option.splits)

lemma monitor_calls_tty_monitor [simp]:
  "filter is_monitor_call (tty_monitor w opts eid) =
     (if Tty opts \<and> isTerminalIn opts
      then [MonitorTtySize eid True (isTerminalOut opts) (outFd opts)] else [])"
  by (simp add: tty_monitor_def split: option.splits)

lemma errCh_receives_deferred_closes [simp]: "errCh_receives (deferred_closes w) = []"
  by (simp add: deferred_closes_def split: option.splits)

lemma closes_deferred_closes [simp]:
  "closes (deferred_closes w) = (case acquired w of Some c \<Rightarrow> [c] | None \<Rightarrow> [])"
  by (simp add: deferred_closes_def split: option.splits)

lemma requests_deferred_closes [simp]: "filter is_request (deferred_closes w) = []"
  by (simp add: deferred_closes_def split: option.splits)

lemma monitor_calls_deferred_closes [simp]: "filter is_monitor_call (deferred_closes w) = []"
  by (simp add: deferred_closes_def split: option.splits)

lemma deferred_closes_events: "ev \<in> set (deferred_closes w) \<Longrightarrow> \<exists>c. ev = Close c"
  by (auto simp: deferred_closes_def split: option.splits)

lemma errCh_receives_hijack2_call [simp]:
  "errCh_receives (hijack2_call opts p # tr) = errCh_receives tr"
  by (simp add: hijack2_call_def)

lemma closes_hijack2_call [simp]: "closes (hijack2_call opts p # tr) = closes tr"
  by (simp add: hijack2_call_def)

lemma is_request_hijack2_call [simp]: "is_request (hijack2_call opts p)"
  by (simp add: hijack2_call_def)

lemma is_monitor_call_hijack2_call [simp]: "\<not> is_monitor_call (hijack2_call opts p)"
  by (simp add: hijack2_call_def)

lemma hijack2_call_eq:
  "hijack2_call opts p = Hijack2 m p' raw i out e d \<longleftrightarrow>
     m = ''POST'' \<and> p' = p \<and> raw = Tty opts \<and> i = InputStream opts \<and>
     out = OutputStream opts \<and>
     e = (if Tty opts then OutputStream opts else ErrorStream opts) \<and> d = opts"
  by (auto simp: hijack2_call_def)

lemma hijack2_call_eq':
  "Hijack2 m p' raw i out e d = hijack2_call opts p \<longleftrightarrow>
     m = ''POST'' \<and> p' = p \<and> raw = Tty opts \<and> i = InputStream opts \<and>
     out = OutputStream opts \<and>
     e = (if Tty opts then OutputStream opts else ErrorStream opts) \<and> d = opts"
  by (auto simp: hijack2_call_def)

lemma relay_result_monitor [simp]:
  "relay_result (w\<lparr>monitorTtySize := m\<rparr>) = relay_result w"
  by (simp add: relay_result_def split: upgrade_result.splits)

subsection \<open>The invariant holds in every reachable configuration\<close>

lemmas inv_defs = session_inv_def relay_streaming_def relay_before_select_def relay_done_def
  relay_result_def acquired_def after_select_def deferred_closes_def

lemma session_inv_start: "session_inv w opts eid session_start"
  by (simp add: session_inv_def session_start_def)

lemma session_inv_relay_step:
  assumes "relay_step w s s'" and "session_inv w opts eid s"
  shows "session_inv w opts eid s'"
  using assms
  by (cases rule: relay_step.cases)
     (auto simp: inv_defs split: coord.splits upgrade_result.splits if_splits)

lemma session_inv_coord_step:
  assumes "coord_step w opts eid s s'" and "session_inv w opts eid s"
  shows "session_inv w opts eid s'"
  using assms
  by (cases rule: coord_step.cases)
     (auto simp: inv_defs split: coord.splits upgrade_result.splits if_splits)

lemma session_inv_step:
  assumes "step w opts eid s s'" and "session_inv w opts eid s"
  shows "session_inv w opts eid s'"
  using assms(1)
proof (cases rule: step.cases)
  case relay_run
  with assms(2) show ?thesis
    by (auto simp: inv_defs split: coord.splits upgrade_result.splits if_splits)
next
  case relay_alone
  then show ?thesis using assms(2) by (rule session_inv_relay_step)
next
  case coord_alone
  then show ?thesis using assms(2) by (rule session_inv_coord_step)
next
  case (select_hijacked c)
  with assms(2) show ?thesis
    by (auto simp: inv_defs split: coord.splits upgrade_result.splits if_splits)
next
  case (deferred_hijacked c r)
  with assms(2) show ?thesis
    by (auto simp: inv_defs split: coord.splits upgrade_result.splits if_splits)
qed

lemma reachable_inv: "reachable w opts eid s \<Longrightarrow> session_inv w opts eid s"
proof (induction rule: reachable.induct)
  case reachable_start
  show ?case by (rule session_inv_start)
next
  case (reachable_step s s')
  from reachable_step.hyps(2) reachable_step.IH show ?case
    by (rule session_inv_step)
qed

subsection \<open>Every run of the session ends with Exec returning\<close>

lemma step_rank: "step w opts eid s s' \<Longrightarrow> rank s' < rank s"
  by (erule step.cases) (auto simp: rank_def elim!: relay_step.cases coord_step.cases)

lemmas relay_steps = relay_step.intros [THEN step.relay_alone]

lemmas coord_steps = coord_step.intros [THEN step.coord_alone]

lemma step_progress:
  assumes "session_inv w opts eid s" and "\<forall>r. coord s \<noteq> Returned r"
  shows "\<exists>s'. step w opts eid s s'"
proof (cases "relay s")
  case Spawned
  then show ?thesis by (blast intro: step.relay_run)
next
  case Upgrading
  then show ?thesis
    by (cases "upgrade w") (blast intro: relay_steps)+
next
  case (Ready c)
  with assms have "coord s = Select"
    by (auto simp: inv_defs split: coord.splits)
  with Ready show ?thesis by (blast intro: step.select_hijacked)
next
  case Copying
  then show ?thesis by (blast intro: relay_steps)
next
  case (Finishing v)
  then show ?thesis by (blast intro: relay_steps)
next
  case (Resolve v)
  with assms have "errCh s = []"
    by (auto simp: inv_defs split: coord.splits)
  with Resolve show ?thesis
    using relay_steps(5) [of s v w opts eid] by auto
next
  case Exited
  show ?thesis
  proof (cases "coord s")
    case Select
    with Exited assms have "hijacked_closed s" by (auto simp: inv_defs)
    with Select show ?thesis by (blast intro: coord_steps)
  next
    case (Monitor d)
    then show ?thesis by (blast intro: coord_steps)
  next
    case (FinalRecv d)
    with Exited assms have "errCh s = [relay_result w]"
      by (auto simp: session_inv_def relay_streaming_def)
    with FinalRecv show ?thesis by (blast intro: coord_steps)
  next
    case (Return d r)
    then show ?thesis
      by (cases d) (blast intro: coord_steps)+
  next
    case (DeferredRecv r)
    with assms have "hijacked_closed s" by (auto simp: session_inv_def relay_done_def)
    with DeferredRecv show ?thesis by (blast intro: coord_steps)
  next
    case (Returned r)
    with assms show ?thesis by simp
  qed
qed

lemma session_terminates:
  "reachable w opts eid s \<Longrightarrow>
   \<exists>s'. reachable w opts eid s' \<and> coord s' = Returned (relay_result w)"
proof (induction "rank s" arbitrary: s rule: less_induct)
  case less
  note inv = reachable_inv [OF less.prems]
  show ?case
  proof (cases "\<exists>r. coord s = Returned r")
    case True
    with inv less.prems show ?thesis
      by (auto simp: session_inv_def)
  next
    case False
    then obtain s' where st: "step w opts eid s s'"
      using step_progress [OF inv] by blast
    then have "rank s' < rank s" by (rule step_rank)
    moreover have "reachable w opts eid s'"
      using less.prems st by (rule reachable_step)
    ultimately show ?thesis by (rule less.hyps)
  qed
qed

lemma Exec_returns_iff:
  "Exec_returns w opts t r \<longleftrightarrow>
     (\<exists>e. Exec_create w opts = (t, Inl e) \<and> r = Some e) \<or>
     (\<exists>t0 eid s. Exec_create w opts = (t0, Inr eid) \<and> reachable w opts eid s \<and>
        coord s = Returned r \<and> t = t0 @ trace s)"
  by (auto simp: Exec_returns.simps)

lemma Exec_returns_session:
  assumes "Exec_create w opts = (t, Inr eid)"
  shows "Exec_returns w opts t' r \<longleftrightarrow>
           (\<exists>s. reachable w opts eid s \<and> coord s = Returned r \<and> t' = t @ trace s)"
  using assms by (auto simp: Exec_returns_iff)

lemma Exec_create_trace:
  "Exec_create w opts = (t, Inr eid) \<Longrightarrow>
     Container opts \<noteq> '''' \<and> eid \<noteq> '''' \<and>
     t = [Do ''POST'' (''/containers/'' @ Container opts @ ''/exec'') opts] \<and>
     (\<exists>body. do_request w ''POST'' (''/containers/'' @ Container opts @ ''/exec'') opts = Inr body \<and>
        unmarshal_Id w body = Inr eid)"
  by (auto simp: Exec_create_def Let_def split: if_splits sum.splits)

subsection \<open>The example sessions are runs of the model\<close>

lemma example_created:
  "Exec_create example_world example_opts = ([example_create], Inr ''e1'')"
  by (simp add: Exec_create_def example_world_def example_opts_def example_create_def)

lemma refused_created:
  "Exec_create refused_world example_opts = ([example_create], Inr ''e1'')"
  by (simp add: Exec_create_def refused_world_def example_world_def example_opts_def
      example_create_def)

lemma example_tty_monitor:
  "tty_monitor example_world example_opts ''e1'' =
     [MonitorTtySize ''e1'' True True 1, Printf tty_warning (Foreign 7)]"
  by (simp add: tty_monitor_def example_world_def example_opts_def isTerminalIn_def
      isTerminalOut_def outFd_def)

lemma example_hijack2_call: "hijack2_call example_opts (doPath ''e1'') = example_start"
  unfolding hijack2_call_def example_start_def doPath_def by (simp add: example_opts_def)

lemma example_reachable: "reachable example_world example_opts ''e1'' example_final"
proof -
  let ?R = "reachable example_world example_opts ''e1''"
  let ?H = "hijack2_call example_opts (doPath ''e1'')"
  let ?M = "tty_monitor example_world example_opts ''e1''"
  have "?R \<lparr>coord = Select, relay = Spawned, hijacked_closed = False, errCh = [], trace = []\<rparr>"
    using reachable_start [of example_world example_opts "''e1''"]
    by (simp add: session_start_def)
  from reachable_step [OF this relay_run]
  have "?R \<lparr>coord = Select, relay = Upgrading, hijacked_closed = False, errCh = [],
           trace = [?H]\<rparr>"
    by simp
  from reachable_step [OF this relay_alone [OF upgrade_ok [where c = 5]]]
  have "?R \<lparr>coord = Select, relay = Ready 5, hijacked_closed = False, errCh = [],
           trace = [?H]\<rparr>"
    by (simp add: example_world_def)
  from reachable_step [OF this select_hijacked [where c = 5]]
  have "?R \<lparr>coord = Monitor (Some 5), relay = Copying, hijacked_closed = False, errCh = [],
           trace = [?H, RecvHijacked (Some 5) True]\<rparr>"
    by simp
  from reachable_step [OF this coord_alone [OF monitor [where d = "Some 5"]]]
  have "?R \<lparr>coord = FinalRecv (Some 5), relay = Copying, hijacked_closed = False, errCh = [],
           trace = [?H, RecvHijacked (Some 5) True] @ ?M\<rparr>"
    by simp
  from reachable_step [OF this relay_alone [OF copy_done]]
  have "?R \<lparr>coord = FinalRecv (Some 5), relay = Finishing None, hijacked_closed = False,
           errCh = [], trace = [?H, RecvHijacked (Some 5) True] @ ?M\<rparr>"
    by (simp add: example_world_def)
  from reachable_step [OF this relay_alone [OF hijack2_returns [where v = None]]]
  have "?R \<lparr>coord = FinalRecv (Some 5), relay = Resolve None, hijacked_closed = True,
           errCh = [], trace = [?H, RecvHijacked (Some 5) True] @ ?M\<rparr>"
    by simp
  from reachable_step [OF this relay_alone [OF promise_resolves [where v = None]]]
  have "?R \<lparr>coord = FinalRecv (Some 5), relay = Exited, hijacked_closed = True,
           errCh = [None], trace = [?H, RecvHijacked (Some 5) True] @ ?M\<rparr>"
    by simp
  from reachable_step [OF this coord_alone [OF final_recv [where d = "Some 5" and v = None and rest = "[]"]]]
  have "?R \<lparr>coord = Return (Some 5) None, relay = Exited, hijacked_closed = True, errCh = [],
           trace = [?H, RecvHijacked (Some 5) True] @ ?M @ [RecvErrCh None]\<rparr>"
    by simp
  from reachable_step [OF this coord_alone [OF deferred_close [where c = 5 and r = None]]]
  have "?R \<lparr>coord = DeferredRecv None, relay = Exited, hijacked_closed = True, errCh = [],
           trace = [?H, RecvHijacked (Some 5) True] @ ?M @ [RecvErrCh None, Close 5]\<rparr>"
    by simp
  from reachable_step [OF this coord_alone [OF deferred_closed [where r = None]]]
  have "?R \<lparr>coord = Returned None, relay = Exited, hijacked_closed = True, errCh = [],
           trace = [?H, RecvHijacked (Some 5) True] @ ?M
                   @ [RecvErrCh None, Close 5, RecvHijacked None False]\<rparr>"
    by simp
  then show ?thesis
    by (simp add: example_final_def example_trace_def example_tty_monitor example_hijack2_call)
qed

lemma refused_reachable: "reachable refused_world example_opts ''e1'' refused_final"
proof -
  let ?R = "reachable refused_world example_opts ''e1''"
  let ?H = "hijack2_call example_opts (doPath ''e1'')"
  let ?e = "Some (Foreign 9)"
  have "?R \<lparr>coord = Select, relay = Spawned, hijacked_closed = False, errCh = [], trace = []\<rparr>"
    using reachable_start [of refused_world example_opts "''e1''"]
    by (simp add: session_start_def)
  from reachable_step [OF this relay_run]
  have "?R \<lparr>coord = Select, relay = Upgrading, hijacked_closed = False, errCh = [],
           trace = [?H]\<rparr>"
    by simp
  from reachable_step [OF this relay_alone [OF upgrade_fails [where e = "Foreign 9"]]]
  have "?R \<lparr>coord = Select, relay = Finishing ?e, hijacked_closed = False, errCh = [],
           trace = [?H]\<rparr>"
    by (simp add: refused_world_def)
  from reachable_step [OF this relay_alone [OF hijack2_returns [where v = ?e]]]
  have "?R \<lparr>coord = Select, relay = Resolve ?e, hijacked_closed = True, errCh = [],
           trace = [?H]\<rparr>"
    by simp
  from reachable_step [OF this relay_alone [OF promise_resolves [where v = ?e]]]
  have "?R \<lparr>coord = Select, relay = Exited, hijacked_closed = True, errCh = [?e],
           trace = [?H]\<rparr>"
    by simp
  from reachable_step [OF this coord_alone [OF select_errCh [where v = ?e and rest = "[]"]]]
  have "?R \<lparr>coord = Return None ?e, relay = Exited, hijacked_closed = True, errCh = [],
           trace = [?H, RecvErrCh ?e]\<rparr>"
    by simp
  from reachable_step [OF this coord_alone [OF no_deferred_close [where r = ?e]]]
  have "?R \<lparr>coord = DeferredRecv ?e, relay = Exited, hijacked_closed = True, errCh = [],
           trace = [?H, RecvErrCh ?e]\<rparr>"
    by simp
  from reachable_step [OF this coord_alone [OF deferred_closed [where r = ?e]]]
  have "?R \<lparr>coord = Returned ?e, relay = Exited, hijacked_closed = True, errCh = [],
           trace = [?H, RecvErrCh ?e, RecvHijacked None False]\<rparr>"
    by simp
  then show ?thesis
    by (simp add: refused_final_def refused_trace_def example_hijack2_call)
qed

subsection \<open>What a reachable configuration has requested, received and closed\<close>

lemma reachable_requests:
  assumes "reachable w opts eid s"
  shows "requests (trace s) =
           (if relay s = Spawned then [] else [hijack2_call opts (doPath eid)])"
  using reachable_inv [OF assms]
  by (cases "coord s")
     (auto simp: requests_def session_inv_def after_select_def relay_before_select_def
        relay_streaming_def relay_done_def)

lemma reachable_errCh_receives:
  assumes "reachable w opts eid s"
  shows "errCh_receives (trace s) =
           (case coord s of Select \<Rightarrow> [] | Monitor d \<Rightarrow> [] | FinalRecv d \<Rightarrow> []
            | _ \<Rightarrow> [relay_result w])"
  using reachable_inv [OF assms]
  by (cases "coord s") (auto simp: session_inv_def after_select_def)



lemma reachable_monitor_calls:
  assumes "reachable w opts eid s"
  shows "monitor_calls (trace s) = [] \<or>
         monitor_calls (trace s) = filter is_monitor_call (tty_monitor w opts eid)"
  using reachable_inv [OF assms]
  by (cases "coord s")
     (auto simp: monitor_calls_def session_inv_def after_select_def split: if_splits)

lemma reachable_monitored:
  assumes "reachable w opts eid s"
    and "coord s \<noteq> Select" and "\<forall>d. coord s \<noteq> Monitor d"
    and "select_took_hijacked (trace s)"
  shows "monitor_calls (trace s) = filter is_monitor_call (tty_monitor w opts eid)"
  using reachable_inv [OF assms(1)] assms(2-4)
  by (cases "coord s") (auto simp: monitor_calls_def session_inv_def after_select_def)

lemma reachable_select_took_hijacked:
  assumes "reachable w opts eid s"
    and "(\<exists>d. coord s = FinalRecv d) \<or> (\<exists>r. coord s = Returned r) \<and> acquired w \<noteq> None"
  shows "select_took_hijacked (trace s)"
  using reachable_inv [OF assms(1)] assms(2)
  by (cases "coord s") (auto simp: session_inv_def after_select_def)

lemma reachable_trace_events:
  assumes "reachable w opts eid s" and "ev \<in> set (trace s)"
  shows "ev = hijack2_call opts (doPath eid) \<or> ev \<in> set (tty_monitor w opts eid) \<or>
         ev = RecvHijacked (acquired w) (acquired w \<noteq> None) \<or> ev = RecvHijacked None False \<or>
         ev = RecvErrCh (relay_result w) \<or> ev \<in> set (deferred_closes w)"
  using reachable_inv [OF assms(1)] assms(2)
  by (cases "coord s") (auto simp: session_inv_def after_select_def)

lemma reachable_warning:
  assumes "reachable w opts eid s"
    and "MonitorTtySize eid True (isTerminalOut opts) (outFd opts) \<in> set (trace s)"
    and "monitorTtySize w eid True (isTerminalOut opts) (outFd opts) = Some e"
  shows "Printf tty_warning e \<in> set (trace s)"
proof -
  have m: "Printf tty_warning e \<in> set (tty_monitor w opts eid)"
    if "MonitorTtySize eid True (isTerminalOut opts) (outFd opts) \<in> set (tty_monitor w opts eid)"
    using that assms(3) by (auto simp: tty_monitor_def split: if_splits)
  show ?thesis
    using reachable_inv [OF assms(1)] assms(2) m
    by (cases "coord s")
       (auto simp: session_inv_def after_select_def hijack2_call_def
          dest: deferred_closes_events)
qed

lemma isTerminalIn_iff: "isTerminalIn opts \<longleftrightarrow> (\<exists>fd tty. InputStream opts = OsFile fd tty)"
  by (auto simp: isTerminalIn_def split: stream.splits)

lemma isTerminalOut_iff: "isTerminalOut opts \<longleftrightarrow> (\<exists>fd tty. OutputStream opts = OsFile fd tty)"
  by (auto simp: isTerminalOut_def split: stream.splits)

subsection \<open>Claims about Exec\<close>

text \<open>
  C1. In every session whose exec instance was created, on every interleaving of the relay
  and the coordinator, Exec receives from the completion channel \<open>errCh\<close> at most once;
  it returns only after the relay has written its final value and Exec has received it,
  exactly once, and that value is what Exec returns (nil when the relay succeeds). This
  covers the runs where the completion value reaches the select before the select has
  looked at \<open>hijacked\<close>, and the runs where the select took the connection first. No run
  stops before Exec has returned, every step lowers \<open>rank\<close>, and so every run ends
  with Exec returning the relay's value. With the relay as specified, a nil completion
  value is never what the select of line 106 receives: the relay ends with nil only after
  the select has taken the connection.
\<close>

theorem Exec_observes_completion_once:
  assumes "Exec_create w opts = (t, Inr eid)" and "reachable w opts eid s"
  shows "length (errCh_receives (trace s)) \<le> 1 \<and>
         (\<forall>r. coord s = Returned r \<longrightarrow>
            r = relay_result w \<and> errCh_receives (trace s) = [relay_result w] \<and>
            relay s = Exited \<and> errCh s = []) \<and>
         (coord s = Select \<and> errCh s \<noteq> [] \<longrightarrow> errCh s \<noteq> [None]) \<and>
         ((\<forall>r. coord s \<noteq> Returned r) \<longrightarrow> (\<exists>s'. step w opts eid s s')) \<and>
         (\<forall>s'. step w opts eid s s' \<longrightarrow> rank s' < rank s) \<and>
         (\<exists>t'. Exec_returns w opts t' (relay_result w)) \<and>
         (\<forall>t' r. Exec_returns w opts t' r \<longrightarrow>
            r = relay_result w \<and> errCh_receives t' = [relay_result w])"
proof -
  note inv = reachable_inv [OF assms(2)]
  have t: "errCh_receives t = []"
    using Exec_create_trace [OF assms(1)] by simp
  have "length (errCh_receives (trace s)) \<le> 1"
    by (simp add: reachable_errCh_receives [OF assms(2)] split: coord.splits)
  moreover have "\<forall>r. coord s = Returned r \<longrightarrow>
            r = relay_result w \<and> errCh_receives (trace s) = [relay_result w] \<and>
            relay s = Exited \<and> errCh s = []"
    using inv reachable_errCh_receives [OF assms(2)]
    by (auto simp: session_inv_def relay_done_def)
  moreover have "coord s = Select \<and> errCh s \<noteq> [] \<longrightarrow> errCh s \<noteq> [None]"
    using inv
    by (auto simp: session_inv_def relay_before_select_def relay_result_def acquired_def
        split: upgrade_result.splits)
  moreover have "(\<forall>r. coord s \<noteq> Returned r) \<longrightarrow> (\<exists>s'. step w opts eid s s')"
    using step_progress [OF inv] by blast
  moreover have "\<forall>s'. step w opts eid s s' \<longrightarrow> rank s' < rank s"
    using step_rank by blast
  moreover have "\<exists>t'. Exec_returns w opts t' (relay_result w)"
    using session_terminates [OF assms(2)] by (auto simp: Exec_returns_session [OF assms(1)])
  moreover have "\<forall>t' r. Exec_returns w opts t' r \<longrightarrow>
            r = relay_result w \<and> errCh_receives t' = [relay_result w]"
  proof (intro allI impI)
    fix t' r
    assume "Exec_returns w opts t' r"
    then obtain s' where s': "reachable w opts eid s'" "coord s' = Returned r"
      and t': "t' = t @ trace s'"
      by (auto simp: Exec_returns_session [OF assms(1)])
    from reachable_inv [OF s'(1)] s'(2) have "r = relay_result w"
      by (simp add: session_inv_def)
    moreover have "errCh_receives t' = [relay_result w]"
      unfolding t' by (simp add: t reachable_errCh_receives [OF s'(1)] s'(2))
    ultimately show "r = relay_result w \<and> errCh_receives t' = [relay_result w]" ..
  qed
  ultimately show ?thesis by blast
qed

theorem Exec_observes_completion_once_witness:
  "Exec_create example_world example_opts = ([example_create], Inr ''e1'') \<and>
   reachable example_world example_opts ''e1'' example_final \<and>
   coord example_final = Returned None \<and>
   errCh_receives (trace example_final) = [None] \<and>
   Exec_create refused_world example_opts = ([example_create], Inr ''e1'') \<and>
   reachable refused_world example_opts ''e1'' refused_final \<and>
   coord refused_final = Returned (Some (Foreign 9)) \<and>
   errCh_receives (trace refused_final) = [Some (Foreign 9)] \<and>
   relay_result example_world = None \<and> relay_result refused_world = Some (Foreign 9)"
proof -
  note a = Exec_observes_completion_once [OF example_created example_reachable]
  note b = Exec_observes_completion_once [OF refused_created refused_reachable]
  have "coord example_final = Returned None"
    and "coord refused_final = Returned (Some (Foreign 9))"
    by (simp_all add: example_final_def refused_final_def)
  with a b example_created example_reachable refused_created refused_reachable
  show ?thesis by simp
qed



text \<open>
  C3. When \<open>opts.Container\<close> is empty, Exec returns the error
  \<open>&NoSuchContainer{ID: ""}\<close> and nothing else happens: the trace is empty, so neither
  \<open>c.do\<close> nor any other collaborator is called.
\<close>

theorem Exec_empty_container:
  "Container opts = '''' \<Longrightarrow>
     Exec_create w opts = ([], Inl (NoSuchContainer '''')) \<and>
     (Exec_returns w opts t r \<longleftrightarrow> t = [] \<and> r = Some (NoSuchContainer ''''))"
  by (auto simp: Exec_returns_iff Exec_create_def)

theorem Exec_empty_container_witness:
  "Container (example_opts\<lparr>Container := ''''\<rparr>) = '''' \<and>
   Exec_returns example_world (example_opts\<lparr>Container := ''''\<rparr>) []
     (Some (NoSuchContainer ''''))"
  using Exec_empty_container
    [of "example_opts\<lparr>Container := ''''\<rparr>" example_world "[]" "Some (NoSuchContainer '''')"]
  by simp

text \<open>
  C4 as stated fails: a response that \<open>c.do\<close> returns successfully and that holds no
  identifier because its body does not decode (here the empty body) makes Exec return the
  error of \<open>json.Unmarshal\<close> (lines 80-82), not the error "Couldn't get an operation id
  for the exec command".
\<close>

theorem Exec_undecodable_response_counterexample:
  "do_request undecodable_world ''POST'' ''/containers/web/exec'' example_opts = Inr '''' \<and>
   unmarshal_Id undecodable_world '''' = Inl (Foreign 8) \<and>
   Exec_returns undecodable_world example_opts [example_create] (Some (Foreign 8)) \<and>
   \<not> Exec_returns undecodable_world example_opts [example_create] (Some missing_operation_id)"
proof -
  have c: "Exec_create undecodable_world example_opts = ([example_create], Inl (Foreign 8))"
    by (simp add: Exec_create_def undecodable_world_def example_world_def example_opts_def
        example_create_def)
  have "Exec_returns undecodable_world example_opts t r \<longleftrightarrow>
          t = [example_create] \<and> r = Some (Foreign 8)" for t r
    using c by (auto simp: Exec_returns_iff)
  then show ?thesis
    by (simp add: undecodable_world_def example_world_def missing_operation_id_def)
qed

text \<open>
  C4, amended. When \<open>c.do\<close> succeeds and the body decodes (\<open>json.Unmarshal\<close> returns no
  error) with an empty identifier (the field is empty or the document has none), Exec
  returns the error "Couldn't get an operation id for the exec command", which is not nil,
  after the one call of \<open>c.do\<close>. When \<open>c.do\<close> succeeds and the body does not decode,
  Exec returns the decoder's error, which is not nil either. When \<open>c.do\<close> fails, Exec
  returns the error of \<open>c.do\<close> unchanged. In none of the three cases does Exec return
  nil or call anything but \<open>c.do\<close>.
\<close>

theorem Exec_missing_operation_id:
  assumes "Container opts \<noteq> ''''"
  shows "(do_request w ''POST'' (''/containers/'' @ Container opts @ ''/exec'') opts = Inr body \<and>
          unmarshal_Id w body = Inr '''' \<longrightarrow>
            (Exec_returns w opts t r \<longleftrightarrow>
               t = [Do ''POST'' (''/containers/'' @ Container opts @ ''/exec'') opts] \<and>
               r = Some missing_operation_id)) \<and>
         (do_request w ''POST'' (''/containers/'' @ Container opts @ ''/exec'') opts = Inr body \<and>
          unmarshal_Id w body = Inl err \<longrightarrow>
            (Exec_returns w opts t r \<longleftrightarrow>
               t = [Do ''POST'' (''/containers/'' @ Container opts @ ''/exec'') opts] \<and>
               r = Some err)) \<and>
         (do_request w ''POST'' (''/containers/'' @ Container opts @ ''/exec'') opts = Inl e \<longrightarrow>
            (Exec_returns w opts t r \<longleftrightarrow>
               t = [Do ''POST'' (''/containers/'' @ Container opts @ ''/exec'') opts] \<and>
               r = Some e))"
proof (intro conjI impI)
  assume "do_request w ''POST'' (''/containers/'' @ Container opts @ ''/exec'') opts = Inr body \<and>
          unmarshal_Id w body = Inr ''''"
  with assms show "Exec_returns w opts t r \<longleftrightarrow>
               t = [Do ''POST'' (''/containers/'' @ Container opts @ ''/exec'') opts] \<and>
               r = Some missing_operation_id"
    by (auto simp: Exec_returns_iff Exec_create_def Let_def)
next
  assume "do_request w ''POST'' (''/containers/'' @ Container opts @ ''/exec'') opts = Inr body \<and>
          unmarshal_Id w body = Inl err"
  with assms show "Exec_returns w opts t r \<longleftrightarrow>
               t = [Do ''POST'' (''/containers/'' @ Container opts @ ''/exec'') opts] \<and>
               r = Some err"
    by (auto simp: Exec_returns_iff Exec_create_def Let_def)
next
  assume "do_request w ''POST'' (''/containers/'' @ Container opts @ ''/exec'') opts = Inl e"
  with assms show "Exec_returns w opts t r \<longleftrightarrow>
               t = [Do ''POST'' (''/containers/'' @ Container opts @ ''/exec'') opts] \<and>
               r = Some e"
    by (auto simp: Exec_returns_iff Exec_create_def Let_def)
qed

theorem Exec_missing_operation_id_witness:
  "Container example_opts \<noteq> '''' \<and>
   Exec_returns (example_world\<lparr>unmarshal_Id := \<lambda>body. Inr ''''\<rparr>) example_opts
     [example_create] (Some missing_operation_id) \<and>
   Exec_returns (example_world\<lparr>unmarshal_Id := \<lambda>body. Inl (Foreign 4)\<rparr>) example_opts
     [example_create] (Some (Foreign 4)) \<and>
   Exec_returns (example_world\<lparr>do_request := \<lambda>method path data. Inl (Foreign 3)\<rparr>) example_opts
     [example_create] (Some (Foreign 3))"
proof -
  let ?path = "''/containers/'' @ Container example_opts @ ''/exec''"
  let ?w1 = "example_world\<lparr>unmarshal_Id := \<lambda>body. Inr ''''\<rparr>"
  let ?w2 = "example_world\<lparr>do_request := \<lambda>method path data. Inl (Foreign 3)\<rparr>"
  let ?w3 = "example_world\<lparr>unmarshal_Id := \<lambda>body. Inl (Foreign 4)\<rparr>"
  have c: "Container example_opts \<noteq> ''''"
    by (simp add: example_opts_def)
  have ec: "example_create = Do ''POST'' ?path example_opts"
    unfolding example_create_def by (simp add: example_opts_def)
  have d1: "do_request ?w1 ''POST'' ?path example_opts = Inr example_body \<and>
            unmarshal_Id ?w1 example_body = Inr ''''"
    by (simp add: example_world_def)
  have d2: "do_request ?w2 ''POST'' ?path example_opts = Inl (Foreign 3)"
    by (simp add: example_world_def)
  have d3: "do_request ?w3 ''POST'' ?path example_opts = Inr example_body \<and>
            unmarshal_Id ?w3 example_body = Inl (Foreign 4)"
    by (simp add: example_world_def)
  from d1 Exec_missing_operation_id
    [OF c, where w = ?w1 and body = example_body and t = "[example_create]"
       and r = "Some missing_operation_id"]
  have "Exec_returns ?w1 example_opts [example_create] (Some missing_operation_id)"
    unfolding ec by blast
  moreover from d3 Exec_missing_operation_id
    [OF c, where w = ?w3 and body = example_body and err = "Foreign 4"
       and t = "[example_create]" and r = "Some (Foreign 4)"]
  have "Exec_returns ?w3 example_opts [example_create] (Some (Foreign 4))"
    unfolding ec by blast
  moreover from d2 Exec_missing_operation_id
    [OF c, where w = ?w2 and e = "Foreign 3" and t = "[example_create]"
       and r = "Some (Foreign 3)"]
  have "Exec_returns ?w2 example_opts [example_create] (Some (Foreign 3))"
    unfolding ec by blast
  ultimately show ?thesis using c by blast
qed

text \<open>
  C5. The call of \<open>c.hijack2\<close> is the only use of the error sink, so the sink is chosen
  before the call: every call of \<open>c.hijack2\<close> in a session passes the caller's output
  stream as its error sink when \<open>Tty\<close> is set, and the caller's error stream otherwise;
  the input stream, the output stream and the flag are passed as they are. Once the relay
  runs, the trace holds such a call.
\<close>

theorem Exec_error_sink:
  assumes "Exec_create w opts = (t, Inr eid)" and "reachable w opts eid s"
  shows "(\<forall>m p raw i out e d. Hijack2 m p raw i out e d \<in> set (trace s) \<longrightarrow>
            (Tty opts \<longrightarrow> e = OutputStream opts) \<and>
            (\<not> Tty opts \<longrightarrow> e = ErrorStream opts) \<and>
            out = OutputStream opts \<and> i = InputStream opts \<and> raw = Tty opts) \<and>
         (relay s \<noteq> Spawned \<longrightarrow>
            Hijack2 ''POST'' (doPath eid) (Tty opts) (InputStream opts) (OutputStream opts)
              (if Tty opts then OutputStream opts else ErrorStream opts) opts \<in> set (trace s))"
proof -
  have mem: "ev \<in> set (trace s) \<longleftrightarrow> ev \<in> set (requests (trace s))" if "is_request ev" for ev
    using that by (simp add: requests_def)
  have "\<forall>m p raw i out e d. Hijack2 m p raw i out e d \<in> set (trace s) \<longrightarrow>
            (Tty opts \<longrightarrow> e = OutputStream opts) \<and>
            (\<not> Tty opts \<longrightarrow> e = ErrorStream opts) \<and>
            out = OutputStream opts \<and> i = InputStream opts \<and> raw = Tty opts"
    by (auto simp: mem reachable_requests [OF assms(2)] hijack2_call_eq' split: if_splits)
  moreover have "relay s \<noteq> Spawned \<longrightarrow>
            Hijack2 ''POST'' (doPath eid) (Tty opts) (InputStream opts) (OutputStream opts)
              (if Tty opts then OutputStream opts else ErrorStream opts) opts \<in> set (trace s)"
    by (simp add: mem reachable_requests [OF assms(2)] hijack2_call_eq hijack2_call_eq')
  ultimately show ?thesis by blast
qed

theorem Exec_error_sink_witness:
  "Exec_create example_world example_opts = ([example_create], Inr ''e1'') \<and>
   reachable example_world example_opts ''e1'' example_final \<and>
   Tty example_opts \<and>
   Hijack2 ''POST'' ''/exec/e1/start'' True (OsFile 3 False) (OsFile 1 True) (OsFile 1 True)
     example_opts \<in> set (trace example_final) \<and>
   OutputStream example_opts = OsFile 1 True"
proof -
  note a = Exec_error_sink [OF example_created example_reachable]
  have "relay example_final \<noteq> Spawned"
    by (simp add: example_final_def)
  with a example_created example_reachable show ?thesis
    by (simp add: example_opts_def doPath_def)
qed

text \<open>
  C6. When the creation call succeeds and the response carries a non-empty identifier,
  Exec returns, and every run that returns has made exactly two requests, in this order:
  the creation call, \<open>POST /containers/<name>/exec\<close> with the options, and one call of
  \<open>c.hijack2\<close>, \<open>POST /exec/<id>/start\<close> with that identifier. At no moment of a
  session has \<open>c.hijack2\<close> been called more than once.
\<close>

theorem Exec_start_call_once:
  assumes "Container opts \<noteq> ''''"
    and "do_request w ''POST'' (''/containers/'' @ Container opts @ ''/exec'') opts = Inr body"
    and "unmarshal_Id w body = Inr eid"
    and "eid \<noteq> ''''"
  shows "(\<exists>t r. Exec_returns w opts t r) \<and>
         (\<forall>t r. Exec_returns w opts t r \<longrightarrow>
            requests t =
              [Do ''POST'' (''/containers/'' @ Container opts @ ''/exec'') opts,
               Hijack2 ''POST'' (''/exec/'' @ eid @ ''/start'') (Tty opts) (InputStream opts)
                 (OutputStream opts)
                 (if Tty opts then OutputStream opts else ErrorStream opts) opts]) \<and>
         (\<forall>s. reachable w opts eid s \<longrightarrow> length (requests (trace s)) \<le> 1)"
proof -
  let ?create = "Do ''POST'' (''/containers/'' @ Container opts @ ''/exec'') opts"
  have created: "Exec_create w opts = ([?create], Inr eid)"
    using assms by (simp add: Exec_create_def)
  obtain s where s: "reachable w opts eid s" "coord s = Returned (relay_result w)"
    using session_terminates [OF reachable_start] by blast
  have "Exec_returns w opts ([?create] @ trace s) (relay_result w)"
    using created s by (rule returns_session)
  then have "\<exists>t r. Exec_returns w opts t r" by blast
  moreover have "requests t =
              [?create,
               Hijack2 ''POST'' (''/exec/'' @ eid @ ''/start'') (Tty opts) (InputStream opts)
                 (OutputStream opts)
                 (if Tty opts then OutputStream opts else ErrorStream opts) opts]"
    if "Exec_returns w opts t r" for t r
  proof -
    from that created obtain s' where s': "reachable w opts eid s'" "coord s' = Returned r"
      and t: "t = [?create] @ trace s'"
      by (auto simp: Exec_returns_iff)
    have "relay s' = Exited"
      using reachable_inv [OF s'(1)] s'(2) by (simp add: session_inv_def relay_done_def)
    then have "requests (trace s') = [hijack2_call opts (doPath eid)]"
      by (simp add: reachable_requests [OF s'(1)])
    then have "requests t = [?create, hijack2_call opts (doPath eid)]"
      unfolding t by (simp add: requests_def)
    then show ?thesis
      by (simp add: hijack2_call_def doPath_def)
  qed
  moreover have "\<forall>s. reachable w opts eid s \<longrightarrow> length (requests (trace s)) \<le> 1"
    by (simp add: reachable_requests)
  ultimately show ?thesis by blast
qed

theorem Exec_start_call_once_witness:
  "Container example_opts \<noteq> '''' \<and>
   Exec_returns example_world example_opts (example_create # example_trace) None \<and>
   requests (example_create # example_trace) = [example_create, example_start]"
proof -
  let ?path = "''/containers/'' @ Container example_opts @ ''/exec''"
  have c: "Container example_opts \<noteq> ''''"
    by (simp add: example_opts_def)
  have d: "do_request example_world ''POST'' ?path example_opts = Inr example_body"
    and u: "unmarshal_Id example_world example_body = Inr ''e1''"
    and n: "''e1'' \<noteq> ''''"
    by (simp_all add: example_world_def)
  have "coord example_final = Returned None" and "trace example_final = example_trace"
    by (simp_all add: example_final_def)
  with returns_session [OF example_created example_reachable, of None]
  have r: "Exec_returns example_world example_opts (example_create # example_trace) None"
    by simp
  have "requests (example_create # example_trace) = [example_create, example_start]"
    by (simp add: requests_def example_create_def example_trace_def example_start_def)
  with Exec_start_call_once [OF c d u n] r c show ?thesis by blast
qed

text \<open>
  C7 as stated fails: the size monitor is started for an input stream that is an
  \<open>*os.File\<close> but no terminal device. In the example session \<open>Tty\<close> is set and the
  input is a regular file; Exec calls \<open>c.monitorTtySize\<close> and returns nil.
\<close>

theorem Exec_monitor_started_for_file_counterexample:
  "Exec_returns example_world example_opts (example_create # example_trace) None \<and>
   MonitorTtySize ''e1'' True True 1 \<in> set (example_create # example_trace) \<and>
   Tty example_opts \<and>
   \<not> is_terminal_device (InputStream example_opts)"
proof -
  have "coord example_final = Returned None" and "trace example_final = example_trace"
    by (simp_all add: example_final_def)
  with returns_session [OF example_created example_reachable, of None]
  have "Exec_returns example_world example_opts (example_create # example_trace) None"
    by simp
  then show ?thesis
    by (simp add: example_trace_def example_opts_def)
qed

text \<open>
  C7, amended. The size monitor is started only when \<open>Tty\<close> is set and the dynamic type
  of the input stream is \<open>*os.File\<close>, whether or not that file is a terminal device.
  When \<open>c.monitorTtySize\<close> fails, its error is printed as a warning, and it never
  becomes the result: what Exec returns is the relay's final value, which does not depend
  on the monitor, so a session whose upgrade succeeds and whose copy ends without error
  returns nil even if monitoring failed.
\<close>

theorem Exec_monitor_failure_is_warning:
  assumes "Exec_create w opts = (t, Inr eid)" and "reachable w opts eid s"
  shows "(\<forall>i a b fd. MonitorTtySize i a b fd \<in> set (trace s) \<longrightarrow>
            Tty opts \<and> (\<exists>fd' tty. InputStream opts = OsFile fd' tty)) \<and>
         (\<forall>e. MonitorTtySize eid True (isTerminalOut opts) (outFd opts) \<in> set (trace s) \<and>
              monitorTtySize w eid True (isTerminalOut opts) (outFd opts) = Some e \<longrightarrow>
              Printf tty_warning e \<in> set (trace s)) \<and>
         (\<forall>r. coord s = Returned r \<longrightarrow> r = relay_result w) \<and>
         (\<forall>m. relay_result (w\<lparr>monitorTtySize := m\<rparr>) = relay_result w) \<and>
         (\<forall>r c. coord s = Returned r \<and> upgrade w = UpgradeOk c \<and> copy_result w = None \<longrightarrow>
            r = None)"
proof -
  have "\<forall>i a b fd. MonitorTtySize i a b fd \<in> set (trace s) \<longrightarrow>
            Tty opts \<and> (\<exists>fd' tty. InputStream opts = OsFile fd' tty)"
  proof (intro allI impI)
    fix i a b fd
    assume "MonitorTtySize i a b fd \<in> set (trace s)"
    from reachable_trace_events [OF assms(2) this]
    have "MonitorTtySize i a b fd \<in> set (tty_monitor w opts eid)"
      by (auto simp: hijack2_call_def dest: deferred_closes_events)
    then show "Tty opts \<and> (\<exists>fd' tty. InputStream opts = OsFile fd' tty)"
      by (auto simp: tty_monitor_def isTerminalIn_iff split: if_splits)
  qed
  moreover have "\<forall>e. MonitorTtySize eid True (isTerminalOut opts) (outFd opts) \<in> set (trace s) \<and>
              monitorTtySize w eid True (isTerminalOut opts) (outFd opts) = Some e \<longrightarrow>
              Printf tty_warning e \<in> set (trace s)"
    using reachable_warning [OF assms(2)] by blast
  moreover have ret: "\<forall>r. coord s = Returned r \<longrightarrow> r = relay_result w"
    using reachable_inv [OF assms(2)] by (auto simp: session_inv_def)
  moreover have "\<forall>m. relay_result (w\<lparr>monitorTtySize := m\<rparr>) = relay_result w"
    by simp
  moreover have "\<forall>r c. coord s = Returned r \<and> upgrade w = UpgradeOk c \<and> copy_result w = None \<longrightarrow>
            r = None"
    using ret by (auto simp: relay_result_def)
  ultimately show ?thesis by blast
qed

theorem Exec_monitor_failure_is_warning_witness:
  "Exec_create example_world example_opts = ([example_create], Inr ''e1'') \<and>
   reachable example_world example_opts ''e1'' example_final \<and>
   MonitorTtySize ''e1'' True True 1 \<in> set (trace example_final) \<and>
   monitorTtySize example_world ''e1'' True True 1 = Some (Foreign 7) \<and>
   Printf tty_warning (Foreign 7) \<in> set (trace example_final) \<and>
   Tty example_opts \<and> InputStream example_opts = OsFile 3 False \<and>
   upgrade example_world = UpgradeOk 5 \<and> copy_result example_world = None \<and>
   coord example_final = Returned None"
proof -
  note a = Exec_monitor_failure_is_warning [OF example_created example_reachable]
  have "MonitorTtySize ''e1'' True True 1 \<in> set (trace example_final)"
    and "monitorTtySize example_world ''e1'' True True 1 = Some (Foreign 7)"
    and "Printf tty_warning (Foreign 7) \<in> set (trace example_final)"
    and "Tty example_opts" and "InputStream example_opts = OsFile 3 False"
    and "upgrade example_world = UpgradeOk 5" and "copy_result example_world = None"
    and "coord example_final = Returned None"
    by (simp_all add: example_final_def example_trace_def example_world_def example_opts_def)
  with a example_created example_reachable show ?thesis by blast
qed

text \<open>
  C10 as stated fails: not every session with \<open>Tty\<close> set and an \<open>*os.File\<close> as
  input starts the size monitor. In the example session whose upgrade fails, the select
  receives the relay's error and Exec returns it (lines 111-114) before the terminal
  checks.
\<close>

theorem Exec_monitor_not_reached_counterexample:
  "Exec_returns refused_world example_opts (example_create # refused_trace) (Some (Foreign 9)) \<and>
   Tty example_opts \<and>
   InputStream example_opts = OsFile 3 False \<and>
   monitor_calls (example_create # refused_trace) = []"
proof -
  have "coord refused_final = Returned (Some (Foreign 9))"
    and "trace refused_final = refused_trace"
    by (simp_all add: refused_final_def)
  with returns_session [OF refused_created refused_reachable, of "Some (Foreign 9)"]
  have "Exec_returns refused_world example_opts (example_create # refused_trace)
          (Some (Foreign 9))"
    by simp
  moreover have "monitor_calls (example_create # refused_trace) = []"
    by (simp add: monitor_calls_def example_create_def refused_trace_def example_start_def)
  ultimately show ?thesis
    by (simp add: example_opts_def)
qed

text \<open>
  C10, amended. The terminal test of Exec is a test of the dynamic type: \<open>isTerminalIn\<close>
  (\<open>isTerminalOut\<close>) holds exactly when the input (output) stream is an \<open>*os.File\<close>,
  whether or not the file is a terminal device, and \<open>outFd\<close> is the descriptor of the
  output stream when that is an \<open>*os.File\<close> and zero otherwise. In no session is the
  size monitor called unless \<open>Tty\<close> is set and the input stream is an \<open>*os.File\<close>;
  in every session that has reached the terminal checks (lines 117-134: the select did not
  return the relay's error) it has been called exactly when \<open>Tty\<close> is set and the input
  stream is an \<open>*os.File\<close>, once, with these arguments. Every session whose
  upgrade succeeds reaches the checks.
\<close>

theorem Exec_terminal_test_is_type_check:
  assumes "Exec_create w opts = (t, Inr eid)" and "reachable w opts eid s"
  shows "(isTerminalIn opts \<longleftrightarrow> (\<exists>fd tty. InputStream opts = OsFile fd tty)) \<and>
         (isTerminalOut opts \<longleftrightarrow> (\<exists>fd tty. OutputStream opts = OsFile fd tty)) \<and>
         (\<forall>fd. InputStream opts = OsFile fd False \<longrightarrow>
            isTerminalIn opts \<and> \<not> is_terminal_device (InputStream opts)) \<and>
         (\<forall>fd tty. OutputStream opts = OsFile fd tty \<longrightarrow> outFd opts = fd) \<and>
         ((\<forall>fd tty. OutputStream opts \<noteq> OsFile fd tty) \<longrightarrow> outFd opts = 0) \<and>
         (monitor_calls (trace s) \<noteq> [] \<longrightarrow>
            Tty opts \<and> (\<exists>fd tty. InputStream opts = OsFile fd tty)) \<and>
         (coord s \<noteq> Select \<and> (\<forall>d. coord s \<noteq> Monitor d) \<and> select_took_hijacked (trace s) \<longrightarrow>
            monitor_calls (trace s) =
              (if Tty opts \<and> (\<exists>fd tty. InputStream opts = OsFile fd tty)
               then [MonitorTtySize eid True (isTerminalOut opts) (outFd opts)] else [])) \<and>
         ((\<exists>d. coord s = FinalRecv d) \<or> (\<exists>r c. coord s = Returned r \<and> upgrade w = UpgradeOk c) \<longrightarrow>
            select_took_hijacked (trace s))"
proof -
  have "\<forall>fd. InputStream opts = OsFile fd False \<longrightarrow>
            isTerminalIn opts \<and> \<not> is_terminal_device (InputStream opts)"
    by (simp add: isTerminalIn_def)
  moreover have "\<forall>fd tty. OutputStream opts = OsFile fd tty \<longrightarrow> outFd opts = fd"
    by (simp add: outFd_def)
  moreover have "(\<forall>fd tty. OutputStream opts \<noteq> OsFile fd tty) \<longrightarrow> outFd opts = 0"
    by (auto simp: outFd_def split: stream.splits)
  moreover have "monitor_calls (trace s) \<noteq> [] \<longrightarrow>
            Tty opts \<and> (\<exists>fd tty. InputStream opts = OsFile fd tty)"
    using reachable_monitor_calls [OF assms(2)]
    by (auto simp: isTerminalIn_iff split: if_splits)
  moreover have "coord s \<noteq> Select \<and> (\<forall>d. coord s \<noteq> Monitor d) \<and>
            select_took_hijacked (trace s) \<longrightarrow>
            monitor_calls (trace s) =
              (if Tty opts \<and> (\<exists>fd tty. InputStream opts = OsFile fd tty)
               then [MonitorTtySize eid True (isTerminalOut opts) (outFd opts)] else [])"
    using reachable_monitored [OF assms(2)] by (simp add: isTerminalIn_iff)
  moreover have "(\<exists>d. coord s = FinalRecv d) \<or>
            (\<exists>r c. coord s = Returned r \<and> upgrade w = UpgradeOk c) \<longrightarrow>
            select_took_hijacked (trace s)"
  proof
    assume "(\<exists>d. coord s = FinalRecv d) \<or> (\<exists>r c. coord s = Returned r \<and> upgrade w = UpgradeOk c)"
    then have "(\<exists>d. coord s = FinalRecv d) \<or> (\<exists>r. coord s = Returned r) \<and> acquired w \<noteq> None"
      by (auto simp: acquired_def)
    with assms(2) show "select_took_hijacked (trace s)"
      by (rule reachable_select_took_hijacked)
  qed
  ultimately show ?thesis
    using isTerminalIn_iff isTerminalOut_iff by blast
qed

theorem Exec_terminal_test_is_type_check_witness:
  "Exec_create example_world example_opts = ([example_create], Inr ''e1'') \<and>
   reachable example_world example_opts ''e1'' example_final \<and>
   InputStream example_opts = OsFile 3 False \<and> \<not> is_terminal_device (OsFile 3 False) \<and>
   isTerminalIn example_opts \<and>
   OutputStream example_opts = OsFile 1 True \<and> outFd example_opts = 1 \<and>
   coord example_final = Returned None \<and> upgrade example_world = UpgradeOk 5 \<and>
   monitor_calls (trace example_final) = [MonitorTtySize ''e1'' True True 1]"
proof -
  note a = Exec_terminal_test_is_type_check [OF example_created example_reachable]
  have "InputStream example_opts = OsFile 3 False"
    and "OutputStream example_opts = OsFile 1 True"
    and "coord example_final = Returned None" and "upgrade example_world = UpgradeOk 5"
    and "Tty example_opts"
    and "monitor_calls (trace example_final) = [MonitorTtySize ''e1'' True True 1]"
    by (simp_all add: example_final_def example_trace_def example_world_def example_opts_def
        monitor_calls_def example_start_def)
  with a example_created example_reachable show ?thesis by auto
qed


end
